theory Spec2Isabelle
  imports Complex_Main
begin

section \<open>Synchro-beam kick of the 3D bi-Gaussian beam-beam element\<close>

text \<open>
  Shallow embedding of \<^verbatim>\<open>xfields/beam_elements/beambeam_src/beambeam3d.h\<close>:
  the per-slice kick \<^verbatim>\<open>synchrobeam_kick\<close> and the per-particle driver
  \<^verbatim>\<open>BeamBeamBiGaussian3D_track_local_particle\<close>.

  Numbers. A C \<^verbatim>\<open>double\<close> is modelled as a \<^typ>\<open>real\<close>: the arithmetic of the
  source is written out operation by operation, in the source's order, but rounding,
  infinities and NaN are not part of the model. Where a statement would otherwise lean
  on the HOL convention \<open>x / 0 = 0\<close> it carries the hypothesis that the denominator is
  not zero. The slice index \<^verbatim>\<open>int i_slice\<close> runs below \<^verbatim>\<open>int N_slices\<close>, so it
  never overflows and is modelled as an \<^typ>\<open>int\<close>; \<^verbatim>\<open>int64_t do_beamstrahlung\<close> is
  only compared with constants and is an \<^typ>\<open>int\<close> too. The C \<^verbatim>\<open>sqrt\<close> is the
  real square root (the two differ on negative arguments only, where C gives NaN; no
  statement below depends on its value there).

  Particles. The driver's body runs once for every particle of the array
  (\<^verbatim>\<open>start_per_particle_block\<close>), each run reading and writing its own particle
  only; the model is that body, for one particle.
\<close>

subsection \<open>Element data\<close>

text \<open>
  \<^verbatim>\<open>BeamBeamBiGaussian3DData\<close> is read only through getters
  \<^verbatim>\<open>BeamBeamBiGaussian3DData_get_<field>(el)\<close> and, for the per-slice arrays of the
  other beam, \<^verbatim>\<open>BeamBeamBiGaussian3DData_get_slices_other_beam_<field>(el, i_slice)\<close>.
  Each field of the record below is named after its getter (without the leading
  underscore of \<^verbatim>\<open>_sin_phi\<close>, ..., \<^verbatim>\<open>_cos_alpha\<close>); a per-slice array is a
  function of the slice index. \<open>num_slices_other_beam\<close> is the value the driver holds
  in its \<^verbatim>\<open>int N_slices\<close>.
\<close>

record BeamBeamBiGaussian3DData =
  sin_phi :: real
  cos_phi :: real
  tan_phi :: real
  sin_alpha :: real
  cos_alpha :: real
  num_slices_other_beam :: int
  ref_shift_x :: real
  ref_shift_px :: real
  ref_shift_y :: real
  ref_shift_py :: real
  ref_shift_zeta :: real
  ref_shift_pzeta :: real
  other_beam_shift_x :: real
  other_beam_shift_px :: real
  other_beam_shift_y :: real
  other_beam_shift_py :: real
  other_beam_shift_zeta :: real
  other_beam_shift_pzeta :: real
  post_subtract_x :: real
  post_subtract_px :: real
  post_subtract_y :: real
  post_subtract_py :: real
  post_subtract_zeta :: real
  post_subtract_pzeta :: real
  other_beam_q0 :: real
  min_sigma_diff :: real
  threshold_singular :: real
  do_beamstrahlung :: int
  slices_other_beam_Sigma_11_star :: "int \<Rightarrow> real"
  slices_other_beam_Sigma_12_star :: "int \<Rightarrow> real"
  slices_other_beam_Sigma_13_star :: "int \<Rightarrow> real"
  slices_other_beam_Sigma_14_star :: "int \<Rightarrow> real"
  slices_other_beam_Sigma_22_star :: "int \<Rightarrow> real"
  slices_other_beam_Sigma_23_star :: "int \<Rightarrow> real"
  slices_other_beam_Sigma_24_star :: "int \<Rightarrow> real"
  slices_other_beam_Sigma_33_star :: "int \<Rightarrow> real"
  slices_other_beam_Sigma_34_star :: "int \<Rightarrow> real"
  slices_other_beam_Sigma_44_star :: "int \<Rightarrow> real"
  slices_other_beam_num_particles :: "int \<Rightarrow> real"
  slices_other_beam_num_macroparticles :: "int \<Rightarrow> real"
  slices_other_beam_x_center_star :: "int \<Rightarrow> real"
  slices_other_beam_y_center_star :: "int \<Rightarrow> real"
  slices_other_beam_zeta_center_star :: "int \<Rightarrow> real"
  slices_other_beam_zeta_bin_width_star :: "int \<Rightarrow> real"

subsection \<open>Per-particle state\<close>

text \<open>
  The state one particle carries through the driver: the \<^verbatim>\<open>LocalParticle\<close> itself
  (\<open>part\<close>, of a type \<open>'p\<close> that only the accessors know), the optional
  beamstrahlung record sink (\<open>bs_record\<close>, \<open>None\<close> for the C \<^verbatim>\<open>NULL\<close>; the
  \<^verbatim>\<open>table\<close> and \<^verbatim>\<open>table_index\<close> pointers of the source point into it and are
  represented by it), and the six local doubles \<^verbatim>\<open>x, px, y, py, zeta, pzeta\<close> of the
  driver, which the kick receives by pointer as \<^verbatim>\<open>x_star, ..., pzeta_star\<close>.
\<close>

record ('p, 'r) track_state =
  part :: 'p
  bs_record :: "'r option"
  x_star :: real
  px_star :: real
  y_star :: real
  py_star :: real
  zeta_star :: real
  pzeta_star :: real

subsection \<open>Collaborators\<close>

text \<open>
  The functions, macros and accessors that \<^verbatim>\<open>beambeam3d.h\<close> calls but does not
  define are parameters of the model, collected in one record whose fields carry the C
  names. A function that writes through pointers returns the written values; a function
  that mutates the particle (or the record sink) returns the mutated one. The
  \<^verbatim>\<open>double\<close> that \<^verbatim>\<open>synrad\<close> and \<^verbatim>\<open>synrad_avg\<close> return is never read by the
  source (\<^verbatim>\<open>_energy_loss\<close>) and is left out. The six coordinates go to the frame
  transforms as a tuple \<open>(x, px, y, py, zeta, pzeta)\<close>, followed by the six shifts,
  (for the inverse) the six post-subtraction offsets, and the five trigonometric values.
\<close>

type_synonym six = "real \<times> real \<times> real \<times> real \<times> real \<times> real"

type_synonym sigmas_out =
  "real \<times> real \<times> real \<times> real \<times> real \<times> real \<times> real \<times> real"

record ('p, 'r) collaborators =
  C_LIGHT :: real
  QELEM :: real
  Sigmas_propagate ::
    "real \<Rightarrow> real \<Rightarrow> real \<Rightarrow> real \<Rightarrow> real \<Rightarrow> real \<Rightarrow> real \<Rightarrow> real \<Rightarrow> real \<Rightarrow> real
       \<Rightarrow> real \<Rightarrow> real \<Rightarrow> int \<Rightarrow> sigmas_out"
  get_Ex_Ey_gauss :: "real \<Rightarrow> real \<Rightarrow> real \<Rightarrow> real \<Rightarrow> real \<Rightarrow> real \<times> real"
  compute_Gx_Gy :: "real \<Rightarrow> real \<Rightarrow> real \<Rightarrow> real \<Rightarrow> real \<Rightarrow> real \<Rightarrow> real \<Rightarrow> real \<times> real"
  synrad :: "'p \<Rightarrow> 'r option \<Rightarrow> real \<Rightarrow> real \<Rightarrow> 'p \<times> 'r option"
  synrad_avg :: "'p \<Rightarrow> real \<Rightarrow> real \<Rightarrow> real \<Rightarrow> real \<Rightarrow> 'p"
  LocalParticle_get_x :: "'p \<Rightarrow> real"
  LocalParticle_get_px :: "'p \<Rightarrow> real"
  LocalParticle_get_y :: "'p \<Rightarrow> real"
  LocalParticle_get_py :: "'p \<Rightarrow> real"
  LocalParticle_get_zeta :: "'p \<Rightarrow> real"
  LocalParticle_get_pzeta :: "'p \<Rightarrow> real"
  LocalParticle_get_q0 :: "'p \<Rightarrow> real"
  LocalParticle_get_p0c :: "'p \<Rightarrow> real"
  LocalParticle_get_rpp :: "'p \<Rightarrow> real"
  LocalParticle_set_x :: "'p \<Rightarrow> real \<Rightarrow> 'p"
  LocalParticle_set_px :: "'p \<Rightarrow> real \<Rightarrow> 'p"
  LocalParticle_set_y :: "'p \<Rightarrow> real \<Rightarrow> 'p"
  LocalParticle_set_py :: "'p \<Rightarrow> real \<Rightarrow> 'p"
  LocalParticle_set_zeta :: "'p \<Rightarrow> real \<Rightarrow> 'p"
  LocalParticle_update_pzeta :: "'p \<Rightarrow> real \<Rightarrow> 'p"
  getp_internal_record :: "BeamBeamBiGaussian3DData \<Rightarrow> 'p \<Rightarrow> 'r option"
  change_ref_frame_coordinates ::
    "six \<Rightarrow> six \<Rightarrow> real \<times> real \<times> real \<times> real \<times> real \<Rightarrow> six"
  change_back_ref_frame_and_subtract_dipolar_coordinates ::
    "six \<Rightarrow> six \<Rightarrow> six \<Rightarrow> real \<times> real \<times> real \<times> real \<times> real \<Rightarrow> six"

subsection \<open>The kick: local quantities\<close>

text \<open>
  Lines 20 to 126 of \<^verbatim>\<open>synchrobeam_kick\<close> compute local constants and write
  nothing. \<open>kick_locals\<close> computes them in the source's order and returns them under
  their C names (\<^verbatim>\<open>Ex\<close>, \<^verbatim>\<open>Ey\<close> as \<open>Ex_fld\<close>, \<open>Ey_fld\<close>).
\<close>

record kick_locals =
  P0 :: real
  Ksl :: real
  S :: real
  Sig_11_hat_star :: real
  Sig_33_hat_star :: real
  costheta :: real
  sintheta :: real
  dS_Sig_11_hat_star :: real
  dS_Sig_33_hat_star :: real
  dS_costheta :: real
  dS_sintheta :: real
  x_bar_star :: real
  y_bar_star :: real
  x_bar_hat_star :: real
  y_bar_hat_star :: real
  dS_x_bar_hat_star :: real
  dS_y_bar_hat_star :: real
  Ex_fld :: real
  Ey_fld :: real
  Gx :: real
  Gy :: real
  Fx_hat_star :: real
  Fy_hat_star :: real
  Gx_hat_star :: real
  Gy_hat_star :: real
  Fx_star :: real
  Fy_star :: real
  Fz_star :: real

definition kick_locals ::
  "('p, 'r) collaborators \<Rightarrow> BeamBeamBiGaussian3DData \<Rightarrow> int \<Rightarrow> real \<Rightarrow> real
     \<Rightarrow> ('p, 'r) track_state \<Rightarrow> kick_locals" where
  "kick_locals env el i_slice q0 p0c s =
    (let q0_bb = other_beam_q0 el;
         Sig_11_0 = slices_other_beam_Sigma_11_star el i_slice;
         Sig_12_0 = slices_other_beam_Sigma_12_star el i_slice;
         Sig_13_0 = slices_other_beam_Sigma_13_star el i_slice;
         Sig_14_0 = slices_other_beam_Sigma_14_star el i_slice;
         Sig_22_0 = slices_other_beam_Sigma_22_star el i_slice;
         Sig_23_0 = slices_other_beam_Sigma_23_star el i_slice;
         Sig_24_0 = slices_other_beam_Sigma_24_star el i_slice;
         Sig_33_0 = slices_other_beam_Sigma_33_star el i_slice;
         Sig_34_0 = slices_other_beam_Sigma_34_star el i_slice;
         Sig_44_0 = slices_other_beam_Sigma_44_star el i_slice;
         num_part_slice = slices_other_beam_num_particles el i_slice;
         x_slice_star = slices_other_beam_x_center_star el i_slice;
         y_slice_star = slices_other_beam_y_center_star el i_slice;
         zeta_slice_star = slices_other_beam_zeta_center_star el i_slice;
         P0v = p0c / C_LIGHT env * QELEM env;
         Kslv = num_part_slice * QELEM env * q0_bb * QELEM env * q0 / (P0v * C_LIGHT env);
         Sv = 0.5 * (zeta_star s - zeta_slice_star);
         (Sig_11_hat, Sig_33_hat, costh, sinth, dS_Sig_11_hat, dS_Sig_33_hat, dS_costh, dS_sinth) =
           Sigmas_propagate env Sig_11_0 Sig_12_0 Sig_13_0 Sig_14_0 Sig_22_0 Sig_23_0
             Sig_24_0 Sig_33_0 Sig_34_0 Sig_44_0 Sv (threshold_singular el) 1;
         x_bar = x_star s + px_star s * Sv - x_slice_star;
         y_bar = y_star s + py_star s * Sv - y_slice_star;
         x_bar_hat = x_bar * costh + y_bar * sinth;
         y_bar_hat = (- x_bar) * sinth + y_bar * costh;
         dS_x_bar_hat = x_bar * dS_costh + y_bar * dS_sinth;
         dS_y_bar_hat = (- x_bar) * dS_sinth + y_bar * dS_costh;
         (Exv, Eyv) = get_Ex_Ey_gauss env x_bar_hat y_bar_hat
                        (sqrt Sig_11_hat) (sqrt Sig_33_hat) (min_sigma_diff el);
         (Gxv, Gyv) = compute_Gx_Gy env x_bar_hat y_bar_hat
                        (sqrt Sig_11_hat) (sqrt Sig_33_hat) (min_sigma_diff el) Exv Eyv;
         Fx_hat = Kslv * Exv;
         Fy_hat = Kslv * Eyv;
         Gx_hat = Kslv * Gxv;
         Gy_hat = Kslv * Gyv;
         Fx = Fx_hat * costh - Fy_hat * sinth;
         Fy = Fx_hat * sinth + Fy_hat * costh;
         Fz = 0.5 * (Fx_hat * dS_x_bar_hat + Fy_hat * dS_y_bar_hat
                      + Gx_hat * dS_Sig_11_hat + Gy_hat * dS_Sig_33_hat)
     in \<lparr> P0 = P0v, Ksl = Kslv, S = Sv,
          Sig_11_hat_star = Sig_11_hat, Sig_33_hat_star = Sig_33_hat,
          costheta = costh, sintheta = sinth,
          dS_Sig_11_hat_star = dS_Sig_11_hat, dS_Sig_33_hat_star = dS_Sig_33_hat,
          dS_costheta = dS_costh, dS_sintheta = dS_sinth,
          x_bar_star = x_bar, y_bar_star = y_bar,
          x_bar_hat_star = x_bar_hat, y_bar_hat_star = y_bar_hat,
          dS_x_bar_hat_star = dS_x_bar_hat, dS_y_bar_hat_star = dS_y_bar_hat,
          Ex_fld = Exv, Ey_fld = Eyv, Gx = Gxv, Gy = Gyv,
          Fx_hat_star = Fx_hat, Fy_hat_star = Fy_hat,
          Gx_hat_star = Gx_hat, Gy_hat_star = Gy_hat,
          Fx_star = Fx, Fy_star = Fy, Fz_star = Fz \<rparr>)"

subsection \<open>The kick: radiation branch and state update\<close>

text \<open>
  Lines 139 to 155: with \<^verbatim>\<open>do_beamstrahlung == 1\<close> the stochastic model runs on the
  particle and the record sink, with \<^verbatim>\<open>== 2\<close> the averaged one runs on the particle;
  either way \<^verbatim>\<open>*pzeta_star\<close> is then reloaded from the particle. Any other value of
  the flag leaves everything as it is. \<^verbatim>\<open>hypot(a, b)\<close> is \<open>sqrt (a\<^sup>2 + b\<^sup>2)\<close>.
\<close>

definition beamstrahlung_step ::
  "('p, 'r) collaborators \<Rightarrow> BeamBeamBiGaussian3DData \<Rightarrow> int \<Rightarrow> kick_locals
     \<Rightarrow> ('p, 'r) track_state \<Rightarrow> ('p, 'r) track_state" where
  "beamstrahlung_step env el i_slice L s =
    (if do_beamstrahlung el = 1 then
       (let Fr = sqrt ((Fx_star L)\<^sup>2 + (Fy_star L)\<^sup>2) * LocalParticle_get_rpp env (part s);
            dz = 0.5 * slices_other_beam_zeta_bin_width_star el i_slice;
            (part', record') = synrad env (part s) (bs_record s) Fr dz
        in s\<lparr> part := part', bs_record := record',
              pzeta_star := LocalParticle_get_pzeta env part' \<rparr>)
     else if do_beamstrahlung el = 2 then
       (let var_z_bb = 0.0121;
            part' = synrad_avg env (part s) (slices_other_beam_num_particles el i_slice)
                      (sqrt (Sig_11_hat_star L)) (sqrt (Sig_33_hat_star L)) var_z_bb
        in s\<lparr> part := part', pzeta_star := LocalParticle_get_pzeta env part' \<rparr>)
     else s)"

text \<open>
  Lines 157 to 164. The five assignments run in sequence, but each right-hand side reads
  only \<^verbatim>\<open>*px_star\<close>, \<^verbatim>\<open>*py_star\<close> before they are written, or the variable being
  written, so all of them read the state \<open>r\<close> left by the radiation branch.
\<close>

definition synchrobeam_kick ::
  "('p, 'r) collaborators \<Rightarrow> BeamBeamBiGaussian3DData \<Rightarrow> int \<Rightarrow> real \<Rightarrow> real
     \<Rightarrow> ('p, 'r) track_state \<Rightarrow> ('p, 'r) track_state" where
  "synchrobeam_kick env el i_slice q0 p0c s =
    (let L = kick_locals env el i_slice q0 p0c s;
         r = beamstrahlung_step env el i_slice L s
     in r\<lparr> pzeta_star := pzeta_star r + Fz_star L
                + 0.5 * (Fx_star L * (px_star r + 0.5 * Fx_star L)
                       + Fy_star L * (py_star r + 0.5 * Fy_star L)),
           x_star := x_star r - S L * Fx_star L,
           px_star := px_star r + Fx_star L,
           y_star := y_star r - S L * Fy_star L,
           py_star := py_star r + Fy_star L \<rparr>)"

subsection \<open>The driver\<close>

text \<open>
  One iteration of the slice loop (lines 256 to 283): the local \<^verbatim>\<open>pzeta\<close> is reloaded
  from the particle (so is \<^verbatim>\<open>delta\<close>, a local that nothing reads afterwards and that
  the model omits), and the kick is applied, followed by
  \<^verbatim>\<open>LocalParticle_update_pzeta\<close>, only when the slice holds more than two
  macroparticles.
\<close>

definition slice_body ::
  "('p, 'r) collaborators \<Rightarrow> BeamBeamBiGaussian3DData \<Rightarrow> real \<Rightarrow> real \<Rightarrow> int
     \<Rightarrow> ('p, 'r) track_state \<Rightarrow> ('p, 'r) track_state" where
  "slice_body env el q0 p0c i_slice s =
    (let s1 = s\<lparr> pzeta_star := LocalParticle_get_pzeta env (part s) \<rparr>;
         num_macroparts_slice = slices_other_beam_num_macroparticles el i_slice
     in if num_macroparts_slice > 2 then
          (let s2 = synchrobeam_kick env el i_slice q0 p0c s1
           in s2\<lparr> part := LocalParticle_update_pzeta env (part s2) (pzeta_star s2) \<rparr>)
        else s1)"

text \<open>
  \<^verbatim>\<open>for (int i_slice=0; i_slice<N_slices; i_slice++)\<close>, started at any index.
\<close>

function slice_loop ::
  "('p, 'r) collaborators \<Rightarrow> BeamBeamBiGaussian3DData \<Rightarrow> real \<Rightarrow> real \<Rightarrow> int \<Rightarrow> int
     \<Rightarrow> ('p, 'r) track_state \<Rightarrow> ('p, 'r) track_state" where
  "slice_loop env el q0 p0c N_slices i_slice s =
    (if i_slice < N_slices
     then slice_loop env el q0 p0c N_slices (i_slice + 1) (slice_body env el q0 p0c i_slice s)
     else s)"
  by pat_completeness auto
termination
  by (relation "measure (\<lambda>(env, el, q0, p0c, N_slices, i_slice, s). nat (N_slices - i_slice))")
     auto

declare slice_loop.simps [simp del]

text \<open>
  Lines 175 to 251: the combined shifts, the record sink, the six coordinates read from
  the particle, the change of reference frame and the first
  \<^verbatim>\<open>LocalParticle_update_pzeta\<close>. The result is the state on which the slice loop
  starts.
\<close>

definition shifts :: "BeamBeamBiGaussian3DData \<Rightarrow> six" where
  "shifts el =
    (ref_shift_x el + other_beam_shift_x el,
     ref_shift_px el + other_beam_shift_px el,
     ref_shift_y el + other_beam_shift_y el,
     ref_shift_py el + other_beam_shift_py el,
     ref_shift_zeta el + other_beam_shift_zeta el,
     ref_shift_pzeta el + other_beam_shift_pzeta el)"


definition angles :: "BeamBeamBiGaussian3DData \<Rightarrow> real \<times> real \<times> real \<times> real \<times> real" where
  "angles el = (sin_phi el, cos_phi el, tan_phi el, sin_alpha el, cos_alpha el)"

definition track_entry ::
  "('p, 'r) collaborators \<Rightarrow> BeamBeamBiGaussian3DData \<Rightarrow> 'p \<Rightarrow> ('p, 'r) track_state" where
  "track_entry env el part0 =
    (let record0 = getp_internal_record env el part0;
         x = LocalParticle_get_x env part0;
         px = LocalParticle_get_px env part0;
         y = LocalParticle_get_y env part0;
         py = LocalParticle_get_py env part0;
         zeta = LocalParticle_get_zeta env part0;
         pzeta = LocalParticle_get_pzeta env part0;
         (x1, px1, y1, py1, zeta1, pzeta1) =
           change_ref_frame_coordinates env (x, px, y, py, zeta, pzeta) (shifts el) (angles el)
     in \<lparr> part = LocalParticle_update_pzeta env part0 pzeta1, bs_record = record0,
          x_star = x1, px_star = px1, y_star = y1, py_star = py1,
          zeta_star = zeta1, pzeta_star = pzeta1 \<rparr>)"

text \<open>
  Lines 254 to 284: the loop over all slices, with the \<^verbatim>\<open>q0\<close> and \<^verbatim>\<open>p0c\<close> read
  from the particle before the change of frame.
\<close>

definition track_slices ::
  "('p, 'r) collaborators \<Rightarrow> BeamBeamBiGaussian3DData \<Rightarrow> 'p \<Rightarrow> ('p, 'r) track_state" where
  "track_slices env el part0 =
    slice_loop env el (LocalParticle_get_q0 env part0) (LocalParticle_get_p0c env part0)
      (num_slices_other_beam el) 0 (track_entry env el part0)"



subsection \<open>Quantities the properties speak about\<close>





text \<open>
  The slices applied in the opposite order, \<^verbatim>\<open>i_slice = N_slices-1, ..., 0\<close>, with
  the same loop body. The source has no such loop; it is the comparison the
  slice-order property of the specification asks for. It is started at
  \<open>N_slices - 1\<close>.
\<close>

function slice_loop_reversed ::
  "('p, 'r) collaborators \<Rightarrow> BeamBeamBiGaussian3DData \<Rightarrow> real \<Rightarrow> real \<Rightarrow> int
     \<Rightarrow> ('p, 'r) track_state \<Rightarrow> ('p, 'r) track_state" where
  "slice_loop_reversed env el q0 p0c i_slice s =
    (if 0 \<le> i_slice
     then slice_loop_reversed env el q0 p0c (i_slice - 1) (slice_body env el q0 p0c i_slice s)
     else s)"
  by pat_completeness auto
termination
  by (relation "measure (\<lambda>(env, el, q0, p0c, i_slice, s). nat (i_slice + 1))") auto

declare slice_loop_reversed.simps [simp del]



subsection \<open>An instance of the collaborators\<close>

text \<open>
  Modelled from the spec: the Sigma propagator, the Gaussian field solver, the
  field-gradient solver, the two radiation models, the frame transforms, the particle
  accessors and the constants \<^verbatim>\<open>C_LIGHT\<close>, \<^verbatim>\<open>QELEM\<close> are not defined in
  \<^verbatim>\<open>beambeam3d.h\<close>; the specification gives their signatures and contracts only
  (its section 6), not their formulas. The definitions below are one instance with
  those signatures, small enough to be evaluated by hand, on which the general theorems
  are run at concrete inputs. They are not the accelerator-physics routines themselves.
\<close>

record particle =
  p_x :: real
  p_px :: real
  p_y :: real
  p_py :: real
  p_zeta :: real
  p_pzeta :: real
  p_q0 :: real
  p_p0c :: real
  p_rpp :: real

text \<open>
  Modelled from the spec: the Sigma propagator ``propagates the covariance matrix by
  a longitudinal drift \<open>S\<close> and diagonalizes it''. For a matrix without coupling
  between the planes the drift gives \<open>\<Sigma>11 + 2 S \<Sigma>12 + S\<^sup>2 \<Sigma>22\<close> (likewise in the
  other plane) and the rotation is the identity; this instance returns that, with the
  derivatives in \<open>S\<close>, and ignores the coupling entries and the thresholds.
\<close>

definition ex_Sigmas_propagate ::
  "real \<Rightarrow> real \<Rightarrow> real \<Rightarrow> real \<Rightarrow> real \<Rightarrow> real \<Rightarrow> real \<Rightarrow> real \<Rightarrow> real \<Rightarrow> real
     \<Rightarrow> real \<Rightarrow> real \<Rightarrow> int \<Rightarrow> sigmas_out" where
  "ex_Sigmas_propagate Sig_11 Sig_12 Sig_13 Sig_14 Sig_22 Sig_23 Sig_24 Sig_33 Sig_34 Sig_44
       Sv thr flag =
    (Sig_11 + 2 * Sig_12 * Sv + Sig_22 * Sv * Sv,
     Sig_33 + 2 * Sig_34 * Sv + Sig_44 * Sv * Sv,
     1, 0,
     2 * Sig_12 + 2 * Sig_22 * Sv,
     2 * Sig_34 + 2 * Sig_44 * Sv,
     0, 0)"

text \<open>
  Modelled from the spec: the Gaussian field solver maps
  \<open>(x, y, \<sigma>x, \<sigma>y, min_sigma_diff)\<close> to \<open>(Ex, Ey)\<close> and gives no force on the axis.
  This instance is linear in the offset, \<open>Ex = x / (\<sigma>x (\<sigma>x + \<sigma>y))\<close> and
  \<open>Ey = y / (\<sigma>y (\<sigma>x + \<sigma>y))\<close>, and does not read the threshold.
\<close>

definition ex_get_Ex_Ey_gauss :: "real \<Rightarrow> real \<Rightarrow> real \<Rightarrow> real \<Rightarrow> real \<Rightarrow> real \<times> real" where
  "ex_get_Ex_Ey_gauss x y sigma_x sigma_y msd =
    (x / (sigma_x * (sigma_x + sigma_y)), y / (sigma_y * (sigma_x + sigma_y)))"

text \<open>
  Modelled from the spec: the field-gradient solver maps
  \<open>(x, y, \<sigma>x, \<sigma>y, min_sigma_diff, Ex, Ey)\<close> to \<open>(Gx, Gy)\<close>. This instance returns no
  gradient.
\<close>

definition ex_compute_Gx_Gy ::
  "real \<Rightarrow> real \<Rightarrow> real \<Rightarrow> real \<Rightarrow> real \<Rightarrow> real \<Rightarrow> real \<Rightarrow> real \<times> real" where
  "ex_compute_Gx_Gy x y sigma_x sigma_y msd Exv Eyv = (0, 0)"

text \<open>
  Modelled from the spec: the stochastic radiation model takes the particle, the record
  sink, the kick magnitude and the path length; it ``mutates the particle's energy
  state and optionally appends an entry to an external recording table''. This instance
  lowers \<^verbatim>\<open>pzeta\<close> by kick magnitude times path length and appends that amount to
  the table when there is one; it takes nothing at kick magnitude zero.
\<close>

definition ex_synrad ::
  "particle \<Rightarrow> real list option \<Rightarrow> real \<Rightarrow> real \<Rightarrow> particle \<times> real list option" where
  "ex_synrad p tbl Fr dz =
    (p\<lparr> p_pzeta := p_pzeta p - Fr * dz \<rparr>,
     case tbl of None \<Rightarrow> None | Some photons \<Rightarrow> Some (photons @ [Fr * dz]))"

text \<open>
  Modelled from the spec: the averaged radiation model takes the particle, the slice
  intensity, the two beam sizes and the longitudinal rms; it is ``deterministic,
  mutates particle energy state, no recording'', and by the zero-force limit of the
  specification a slice of intensity zero leaves the particle as it was. This instance
  lowers \<^verbatim>\<open>pzeta\<close> by an amount proportional to the slice intensity and to the
  longitudinal rms, and inversely proportional to the sum of the two beam sizes; it
  takes nothing at intensity zero.
\<close>

definition ex_synrad_avg :: "particle \<Rightarrow> real \<Rightarrow> real \<Rightarrow> real \<Rightarrow> real \<Rightarrow> particle" where
  "ex_synrad_avg p n_bb sigma_x sigma_y sigma_z =
    p\<lparr> p_pzeta := p_pzeta p - n_bb * sigma_z / (sigma_x + sigma_y) \<rparr>"

text \<open>
  Modelled from the spec: the forward frame transform is a ``pure coordinate map
  taking the six shift values and the five trigonometric values'', into the frame
  ``rotated and Lorentz-boosted so that two beams crossing at an angle collide
  head-on''. This instance subtracts the six shifts and then, as a boost does to first
  order, takes \<open>tan_phi\<close> times the longitudinal momentum out of the horizontal one;
  at zero crossing angle it only shifts.
\<close>

definition ex_change_ref_frame_coordinates ::
  "six \<Rightarrow> six \<Rightarrow> real \<times> real \<times> real \<times> real \<times> real \<Rightarrow> six" where
  "ex_change_ref_frame_coordinates c sh ang =
    (case (c, sh, ang) of
       ((x, px, y, py, zeta, pzeta), (sx, spx, sy, spy, sz, spz),
        (sphi, cphi, tphi, salpha, calpha)) \<Rightarrow>
       (x - sx, (px - spx) - tphi * (pzeta - spz), y - sy, py - spy, zeta - sz, pzeta - spz))"

text \<open>
  Modelled from the spec: the inverse frame transform takes, in addition, the six
  post-subtraction offsets. This instance puts \<open>tan_phi\<close> times the longitudinal
  momentum back into the horizontal one, adds the six shifts and subtracts the six
  offsets, so that it undoes the forward instance when the offsets are zero (the frame
  round trip of the specification).
\<close>

definition ex_change_back ::
  "six \<Rightarrow> six \<Rightarrow> six \<Rightarrow> real \<times> real \<times> real \<times> real \<times> real \<Rightarrow> six" where
  "ex_change_back c sh post ang =
    (case (c, sh, post, ang) of
       ((x, px, y, py, zeta, pzeta), (sx, spx, sy, spy, sz, spz), (ox, opx, oy, opy, oz, opz),
        (sphi, cphi, tphi, salpha, calpha)) \<Rightarrow>
       (x + sx - ox, (px + tphi * pzeta) + spx - opx, y + sy - oy, py + spy - opy,
        zeta + sz - oz, pzeta + spz - opz))"

text \<open>
  Modelled from the spec: the particle accessors are ``get/set for each of the six
  coordinates plus \<open>q0\<close>, \<open>p0c\<close>'' and the operation that updates \<^verbatim>\<open>pzeta\<close>.
  In this instance they read and write the fields of the record \<open>particle\<close>, the
  update of \<^verbatim>\<open>pzeta\<close> stores it, every particle has an empty record sink, and the
  constants \<^verbatim>\<open>C_LIGHT\<close> and \<^verbatim>\<open>QELEM\<close> are \<open>1\<close> (natural units), so that
  \<open>P0 = p0c\<close>.
\<close>

definition ex_env :: "(particle, real list) collaborators" where
  "ex_env =
    \<lparr> C_LIGHT = 1, QELEM = 1,
      Sigmas_propagate = ex_Sigmas_propagate,
      get_Ex_Ey_gauss = ex_get_Ex_Ey_gauss,
      compute_Gx_Gy = ex_compute_Gx_Gy,
      synrad = ex_synrad,
      synrad_avg = ex_synrad_avg,
      LocalParticle_get_x = p_x,
      LocalParticle_get_px = p_px,
      LocalParticle_get_y = p_y,
      LocalParticle_get_py = p_py,
      LocalParticle_get_zeta = p_zeta,
      LocalParticle_get_pzeta = p_pzeta,
      LocalParticle_get_q0 = p_q0,
      LocalParticle_get_p0c = p_p0c,
      LocalParticle_get_rpp = p_rpp,
      LocalParticle_set_x = (\<lambda>p v. p\<lparr> p_x := v \<rparr>),
      LocalParticle_set_px = (\<lambda>p v. p\<lparr> p_px := v \<rparr>),
      LocalParticle_set_y = (\<lambda>p v. p\<lparr> p_y := v \<rparr>),
      LocalParticle_set_py = (\<lambda>p v. p\<lparr> p_py := v \<rparr>),
      LocalParticle_set_zeta = (\<lambda>p v. p\<lparr> p_zeta := v \<rparr>),
      LocalParticle_update_pzeta = (\<lambda>p v. p\<lparr> p_pzeta := v \<rparr>),
      getp_internal_record = (\<lambda>el p. Some []),
      change_ref_frame_coordinates = ex_change_ref_frame_coordinates,
      change_back_ref_frame_and_subtract_dipolar_coordinates = ex_change_back \<rparr>"

text \<open>
  A particle at \<open>x = 1\<close>, at rest transversally, with unit charge and momentum; and an
  element with two round slices of unit size, parallel (no angular spread), centred on
  the axis at \<open>zeta = 2\<close> and \<open>zeta = -2\<close>, of intensities given by \<open>n_bb\<close>, with
  macroparticle counts given by \<open>n_macro\<close> and radiation flag \<open>mode\<close>.
\<close>

definition ex_part :: particle where
  "ex_part = \<lparr> p_x = 1, p_px = 0, p_y = 0, p_py = 0, p_zeta = 0, p_pzeta = 0,
               p_q0 = 1, p_p0c = 1, p_rpp = 1 \<rparr>"

definition ex_el :: "int \<Rightarrow> (int \<Rightarrow> real) \<Rightarrow> (int \<Rightarrow> real) \<Rightarrow> BeamBeamBiGaussian3DData" where
  "ex_el mode n_bb n_macro =
    \<lparr> sin_phi = 0, cos_phi = 1, tan_phi = 0, sin_alpha = 0, cos_alpha = 1,
      num_slices_other_beam = 2,
      ref_shift_x = 0, ref_shift_px = 0, ref_shift_y = 0,
      ref_shift_py = 0, ref_shift_zeta = 0, ref_shift_pzeta = 0,
      other_beam_shift_x = 0, other_beam_shift_px = 0, other_beam_shift_y = 0,
      other_beam_shift_py = 0, other_beam_shift_zeta = 0, other_beam_shift_pzeta = 0,
      post_subtract_x = 0, post_subtract_px = 0, post_subtract_y = 0,
      post_subtract_py = 0, post_subtract_zeta = 0, post_subtract_pzeta = 0,
      other_beam_q0 = 1, min_sigma_diff = 1 / 10, threshold_singular = 1 / 10,
      do_beamstrahlung = mode,
      slices_other_beam_Sigma_11_star = (\<lambda>i. 1),
      slices_other_beam_Sigma_12_star = (\<lambda>i. 0),
      slices_other_beam_Sigma_13_star = (\<lambda>i. 0),
      slices_other_beam_Sigma_14_star = (\<lambda>i. 0),
      slices_other_beam_Sigma_22_star = (\<lambda>i. 0),
      slices_other_beam_Sigma_23_star = (\<lambda>i. 0),
      slices_other_beam_Sigma_24_star = (\<lambda>i. 0),
      slices_other_beam_Sigma_33_star = (\<lambda>i. 1),
      slices_other_beam_Sigma_34_star = (\<lambda>i. 0),
      slices_other_beam_Sigma_44_star = (\<lambda>i. 0),
      slices_other_beam_num_particles = n_bb,
      slices_other_beam_num_macroparticles = n_macro,
      slices_other_beam_x_center_star = (\<lambda>i. 0),
      slices_other_beam_y_center_star = (\<lambda>i. 0),
      slices_other_beam_zeta_center_star = (\<lambda>i. if i = 0 then 2 else - 2),
      slices_other_beam_zeta_bin_width_star = (\<lambda>i. 1) \<rparr>"


definition ex_state :: "(particle, real list) track_state" where
  "ex_state = \<lparr> part = ex_part, bs_record = Some [],
                x_star = 1, px_star = 0, y_star = 0, py_star = 0,
                zeta_star = 0, pzeta_star = 0 \<rparr>"

section \<open>Properties of the kick\<close>

subsection \<open>What the radiation branch touches\<close>

lemma beamstrahlung_step_frame:
  "x_star (beamstrahlung_step env el i L s) = x_star s"
  "px_star (beamstrahlung_step env el i L s) = px_star s"
  "y_star (beamstrahlung_step env el i L s) = y_star s"
  "py_star (beamstrahlung_step env el i L s) = py_star s"
  "zeta_star (beamstrahlung_step env el i L s) = zeta_star s"
  by (simp_all add: beamstrahlung_step_def Let_def split_def)

lemma beamstrahlung_step_pzeta:
  "pzeta_star (beamstrahlung_step env el i L s) =
     (if do_beamstrahlung el = 1 \<or> do_beamstrahlung el = 2
      then LocalParticle_get_pzeta env (part (beamstrahlung_step env el i L s))
      else pzeta_star s)"
  by (simp add: beamstrahlung_step_def Let_def split_def)


lemma synchrobeam_kick_unfold:
  "synchrobeam_kick env el i q0 p0c s =
     (beamstrahlung_step env el i (kick_locals env el i q0 p0c s) s)
       \<lparr> pzeta_star :=
            pzeta_star (beamstrahlung_step env el i (kick_locals env el i q0 p0c s) s)
            + Fz_star (kick_locals env el i q0 p0c s)
            + 0.5 * (Fx_star (kick_locals env el i q0 p0c s)
                       * (px_star s + 0.5 * Fx_star (kick_locals env el i q0 p0c s))
                   + Fy_star (kick_locals env el i q0 p0c s)
                       * (py_star s + 0.5 * Fy_star (kick_locals env el i q0 p0c s))),
         x_star := x_star s - S (kick_locals env el i q0 p0c s)
                                * Fx_star (kick_locals env el i q0 p0c s),
         px_star := px_star s + Fx_star (kick_locals env el i q0 p0c s),
         y_star := y_star s - S (kick_locals env el i q0 p0c s)
                                * Fy_star (kick_locals env el i q0 p0c s),
         py_star := py_star s + Fy_star (kick_locals env el i q0 p0c s) \<rparr>"
  by (simp add: synchrobeam_kick_def Let_def beamstrahlung_step_frame)

lemma synchrobeam_kick_part:
  "part (synchrobeam_kick env el i q0 p0c s) =
     part (beamstrahlung_step env el i (kick_locals env el i q0 p0c s) s)"
  "bs_record (synchrobeam_kick env el i q0 p0c s) =
     bs_record (beamstrahlung_step env el i (kick_locals env el i q0 p0c s) s)"
  by (simp_all add: synchrobeam_kick_unfold)

lemma synchrobeam_kick_zeta:
  "zeta_star (synchrobeam_kick env el i q0 p0c s) = zeta_star s"
  by (simp add: synchrobeam_kick_unfold beamstrahlung_step_frame)

lemma kick_locals_S:
  "S (kick_locals env el i q0 p0c s) =
     0.5 * (zeta_star s - slices_other_beam_zeta_center_star el i)"
  by (simp add: kick_locals_def Let_def split_def)

subsection \<open>The state update\<close>

text \<open>
  Claim C1. Whatever the particle, the slice and the collaborators, the state that
  \<^verbatim>\<open>synchrobeam_kick\<close> leaves is the step-10 map: \<^verbatim>\<open>pzeta\<close> is the value current
  after the radiation branch (the incoming \<^verbatim>\<open>pzeta\<close> when the flag is neither 1 nor
  2, the value reloaded from the particle otherwise) plus
  \<open>Fz + 0.5 (Fx (px + 0.5 Fx) + Fy (py + 0.5 Fy))\<close> with the incoming \<^verbatim>\<open>px\<close> and
  \<^verbatim>\<open>py\<close>; \<^verbatim>\<open>x\<close> and \<^verbatim>\<open>y\<close> lose \<open>S Fx\<close> and \<open>S Fy\<close>; \<^verbatim>\<open>px\<close> and
  \<^verbatim>\<open>py\<close> gain \<open>Fx\<close> and \<open>Fy\<close>; \<^verbatim>\<open>zeta\<close> stays; and \<open>S\<close> is half the
  separation computed from the incoming \<^verbatim>\<open>zeta\<close>.
\<close>

theorem synchrobeam_kick_is_step10_map:
  "(let L = kick_locals env el i_slice q0 p0c s;
        s' = synchrobeam_kick env el i_slice q0 p0c s
    in pzeta_star s' =
         (if do_beamstrahlung el = 1 \<or> do_beamstrahlung el = 2
          then LocalParticle_get_pzeta env (part s') else pzeta_star s)
         + (Fz_star L + 0.5 * (Fx_star L * (px_star s + 0.5 * Fx_star L)
                             + Fy_star L * (py_star s + 0.5 * Fy_star L)))
       \<and> x_star s' = x_star s - S L * Fx_star L
       \<and> px_star s' = px_star s + Fx_star L
       \<and> y_star s' = y_star s - S L * Fy_star L
       \<and> py_star s' = py_star s + Fy_star L
       \<and> zeta_star s' = zeta_star s
       \<and> S L = 0.5 * (zeta_star s - slices_other_beam_zeta_center_star el i_slice))"
proof -
  define L where "L = kick_locals env el i_slice q0 p0c s"
  define r where "r = beamstrahlung_step env el i_slice L s"
  have pz: "pzeta_star r =
      (if do_beamstrahlung el = 1 \<or> do_beamstrahlung el = 2
       then LocalParticle_get_pzeta env (part r) else pzeta_star s)"
    unfolding r_def by (rule beamstrahlung_step_pzeta)
  have SL: "S L = 0.5 * (zeta_star s - slices_other_beam_zeta_center_star el i_slice)"
    unfolding L_def by (rule kick_locals_S)
  have z: "zeta_star r = zeta_star s"
    unfolding r_def by (rule beamstrahlung_step_frame)
  show ?thesis
    unfolding Let_def
    using pz SL z
    by (simp add: synchrobeam_kick_unfold L_def [symmetric] r_def [symmetric])
qed

subsection \<open>The longitudinal kick\<close>

lemma kick_locals_longitudinal:
  "(let L = kick_locals env el i q0 p0c s
    in Fz_star L = 0.5 * (Fx_hat_star L * dS_x_bar_hat_star L
                        + Fy_hat_star L * dS_y_bar_hat_star L
                        + Gx_hat_star L * dS_Sig_11_hat_star L
                        + Gy_hat_star L * dS_Sig_33_hat_star L)
     \<and> dS_x_bar_hat_star L = x_bar_star L * dS_costheta L + y_bar_star L * dS_sintheta L
     \<and> dS_y_bar_hat_star L = - x_bar_star L * dS_sintheta L + y_bar_star L * dS_costheta L
     \<and> Fx_hat_star L = Ksl L * Ex_fld L
     \<and> Fy_hat_star L = Ksl L * Ey_fld L
     \<and> Gx_hat_star L = Ksl L * Gx L
     \<and> Gy_hat_star L = Ksl L * Gy L)"
  by (simp add: kick_locals_def Let_def split_def)

text \<open>
  Claim C2. The longitudinal kick is one half of: the diagonal-frame transverse kick
  times the \<open>S\<close>-derivative of the diagonal-frame offset, in both planes, plus the
  diagonal-frame gradient kick times the \<open>S\<close>-derivative of the principal variance,
  in both planes. The \<open>S\<close>-derivative of the offset is the offset rotated by the
  \<open>S\<close>-derivatives of \<open>costheta\<close> and \<open>sintheta\<close>; in terms of what the
  collaborators return, the longitudinal kick is \<open>0.5 Ksl\<close> times the sum of the two
  field components times these derivatives and of the two gradient components times
  the derivatives of the variances.
\<close>

theorem Fz_star_formula:
  "(let L = kick_locals env el i_slice q0 p0c s
    in Fz_star L = 0.5 * (Fx_hat_star L * dS_x_bar_hat_star L
                        + Fy_hat_star L * dS_y_bar_hat_star L
                        + Gx_hat_star L * dS_Sig_11_hat_star L
                        + Gy_hat_star L * dS_Sig_33_hat_star L)
     \<and> dS_x_bar_hat_star L = x_bar_star L * dS_costheta L + y_bar_star L * dS_sintheta L
     \<and> dS_y_bar_hat_star L = - x_bar_star L * dS_sintheta L + y_bar_star L * dS_costheta L
     \<and> Fz_star L =
         0.5 * Ksl L
           * (Ex_fld L * (x_bar_star L * dS_costheta L + y_bar_star L * dS_sintheta L)
            + Ey_fld L * (y_bar_star L * dS_costheta L - x_bar_star L * dS_sintheta L)
            + Gx L * dS_Sig_11_hat_star L + Gy L * dS_Sig_33_hat_star L))"
proof -
  define L where "L = kick_locals env el i_slice q0 p0c s"
  note R = kick_locals_longitudinal [of env el i_slice q0 p0c s, unfolded Let_def,
      folded L_def]
  from R have fz: "Fz_star L = 0.5 * (Fx_hat_star L * dS_x_bar_hat_star L
                        + Fy_hat_star L * dS_y_bar_hat_star L
                        + Gx_hat_star L * dS_Sig_11_hat_star L
                        + Gy_hat_star L * dS_Sig_33_hat_star L)"
    and dx: "dS_x_bar_hat_star L = x_bar_star L * dS_costheta L + y_bar_star L * dS_sintheta L"
    and dy: "dS_y_bar_hat_star L = - x_bar_star L * dS_sintheta L + y_bar_star L * dS_costheta L"
    and hat: "Fx_hat_star L = Ksl L * Ex_fld L" "Fy_hat_star L = Ksl L * Ey_fld L"
      "Gx_hat_star L = Ksl L * Gx L" "Gy_hat_star L = Ksl L * Gy L"
    by blast+
  have "Fz_star L =
         0.5 * Ksl L
           * (Ex_fld L * (x_bar_star L * dS_costheta L + y_bar_star L * dS_sintheta L)
            + Ey_fld L * (y_bar_star L * dS_costheta L - x_bar_star L * dS_sintheta L)
            + Gx L * dS_Sig_11_hat_star L + Gy L * dS_Sig_33_hat_star L)"
    unfolding fz hat dx dy by (simp add: algebra_simps)
  with fz dx dy show ?thesis
    unfolding Let_def L_def [symmetric] by blast
qed

subsection \<open>Collision point and offsets\<close>

text \<open>
  Claim C5. The collision point is at \<open>S = 0.5 (zeta - zeta_slice)\<close>; the offset
  from the slice centroid is the drifted one, \<open>x + px S - x_slice\<close> and likewise in
  \<open>y\<close>; it is taken to the diagonal frame by the rotation \<open>(costheta, sintheta)\<close>;
  and that rotation is the one \<^verbatim>\<open>Sigmas_propagate\<close> returns for the slice's Sigma
  entries at this \<open>S\<close>.
\<close>

theorem collision_point_and_offsets:
  "(let L = kick_locals env el i_slice q0 p0c s
    in S L = 0.5 * (zeta_star s - slices_other_beam_zeta_center_star el i_slice)
     \<and> x_bar_star L = x_star s + px_star s * S L - slices_other_beam_x_center_star el i_slice
     \<and> y_bar_star L = y_star s + py_star s * S L - slices_other_beam_y_center_star el i_slice
     \<and> x_bar_hat_star L = x_bar_star L * costheta L + y_bar_star L * sintheta L
     \<and> y_bar_hat_star L = - x_bar_star L * sintheta L + y_bar_star L * costheta L
     \<and> (Sig_11_hat_star L, Sig_33_hat_star L, costheta L, sintheta L,
        dS_Sig_11_hat_star L, dS_Sig_33_hat_star L, dS_costheta L, dS_sintheta L) =
       Sigmas_propagate env
         (slices_other_beam_Sigma_11_star el i_slice) (slices_other_beam_Sigma_12_star el i_slice)
         (slices_other_beam_Sigma_13_star el i_slice) (slices_other_beam_Sigma_14_star el i_slice)
         (slices_other_beam_Sigma_22_star el i_slice) (slices_other_beam_Sigma_23_star el i_slice)
         (slices_other_beam_Sigma_24_star el i_slice) (slices_other_beam_Sigma_33_star el i_slice)
         (slices_other_beam_Sigma_34_star el i_slice) (slices_other_beam_Sigma_44_star el i_slice)
         (S L) (threshold_singular el) 1)"
  by (simp add: kick_locals_def Let_def split_def)

subsection \<open>Force scaling\<close>

text \<open>
  Claim C6. \<open>P0 = p0c e / c\<close>, \<open>Ksl = n e q0_bb e q0 / (P0 c)\<close> with \<open>n\<close> the
  slice's \<^verbatim>\<open>num_particles\<close>; \<open>(Ex, Ey)\<close> and \<open>(Gx, Gy)\<close> are the outputs of the
  field solver and of the gradient solver at the diagonal-frame offset; and the four
  diagonal-frame kick components are these outputs times the one \<open>Ksl\<close>.
\<close>

theorem force_scaling_factor:
  "(let L = kick_locals env el i_slice q0 p0c s
    in P0 L = p0c * QELEM env / C_LIGHT env
     \<and> Ksl L = slices_other_beam_num_particles el i_slice * QELEM env * other_beam_q0 el
                 * QELEM env * q0 / (P0 L * C_LIGHT env)
     \<and> (Ex_fld L, Ey_fld L) =
         get_Ex_Ey_gauss env (x_bar_hat_star L) (y_bar_hat_star L)
           (sqrt (Sig_11_hat_star L)) (sqrt (Sig_33_hat_star L)) (min_sigma_diff el)
     \<and> (Gx L, Gy L) =
         compute_Gx_Gy env (x_bar_hat_star L) (y_bar_hat_star L)
           (sqrt (Sig_11_hat_star L)) (sqrt (Sig_33_hat_star L)) (min_sigma_diff el)
           (Ex_fld L) (Ey_fld L)
     \<and> Fx_hat_star L = Ksl L * Ex_fld L
     \<and> Fy_hat_star L = Ksl L * Ey_fld L
     \<and> Gx_hat_star L = Ksl L * Gx L
     \<and> Gy_hat_star L = Ksl L * Gy L)"
  by (simp add: kick_locals_def Let_def split_def)

subsection \<open>Zero intensity, zero kick\<close>

lemmas ex_defs = ex_env_def ex_el_def ex_part_def ex_state_def ex_Sigmas_propagate_def
  ex_get_Ex_Ey_gauss_def ex_compute_Gx_Gy_def ex_synrad_def ex_synrad_avg_def
  ex_change_ref_frame_coordinates_def ex_change_back_def


section \<open>Properties of the driver\<close>

subsection \<open>The loop body and the loop\<close>

lemma slice_body_unfold:
  "slice_body env el q0 p0c i s =
     (if slices_other_beam_num_macroparticles el i > 2 then
        (synchrobeam_kick env el i q0 p0c (s\<lparr> pzeta_star := LocalParticle_get_pzeta env (part s) \<rparr>))
          \<lparr> part := LocalParticle_update_pzeta env
               (part (synchrobeam_kick env el i q0 p0c
                        (s\<lparr> pzeta_star := LocalParticle_get_pzeta env (part s) \<rparr>)))
               (pzeta_star (synchrobeam_kick env el i q0 p0c
                        (s\<lparr> pzeta_star := LocalParticle_get_pzeta env (part s) \<rparr>))) \<rparr>
      else s\<lparr> pzeta_star := LocalParticle_get_pzeta env (part s) \<rparr>)"
  by (simp add: slice_body_def Let_def)

lemma slice_loop_step:
  "i < N \<Longrightarrow> slice_loop env el q0 p0c N i s =
     slice_loop env el q0 p0c N (i + 1) (slice_body env el q0 p0c i s)"
  by (subst slice_loop.simps) simp

lemma slice_loop_done:
  "\<not> i < N \<Longrightarrow> slice_loop env el q0 p0c N i s = s"
  by (subst slice_loop.simps) simp

text \<open>
  The loop up to \<open>N\<close> is the loop up to \<open>k\<close> followed by the loop from \<open>k\<close>: the
  state on which iteration \<open>k\<close> of the driver runs is
  \<open>slice_loop env el q0 p0c k 0 s\<close>, where \<open>s\<close> is the state at loop entry.
\<close>

lemma slice_loop_split:
  "i \<le> k \<Longrightarrow> k \<le> N \<Longrightarrow>
     slice_loop env el q0 p0c N i s =
       slice_loop env el q0 p0c N k (slice_loop env el q0 p0c k i s)"
proof (induction env el q0 p0c k i s rule: slice_loop.induct)
  case (1 env el q0 p0c k i s)
  show ?case
  proof (cases "i < k")
    case True
    with "1.prems" have iN: "i < N" by simp
    from True have "i + 1 \<le> k" by simp
    from "1.IH" [OF True this "1.prems"(2)]
    show ?thesis by (simp add: slice_loop_step [OF iN] slice_loop_step [OF True])
  next
    case False
    with "1.prems" have "i = k" by simp
    then show ?thesis by (simp add: slice_loop_done)
  qed
qed

subsection \<open>The longitudinal coordinate\<close>

lemma slice_body_zeta:
  "zeta_star (slice_body env el q0 p0c i s) = zeta_star s"
  by (simp add: slice_body_unfold synchrobeam_kick_zeta)

lemma slice_loop_zeta:
  "zeta_star (slice_loop env el q0 p0c N i s) = zeta_star s"
proof (induction env el q0 p0c N i s rule: slice_loop.induct)
  case (1 env el q0 p0c N i s)
  show ?case
  proof (cases "i < N")
    case True
    with "1.IH" [OF True] show ?thesis
      by (simp add: slice_loop_step slice_body_zeta)
  next
    case False
    then show ?thesis by (simp add: slice_loop_done)
  qed
qed

text \<open>
  Claim C9. The kick does not change \<^verbatim>\<open>zeta\<close>; neither does one iteration of the
  loop, nor the loop from any index to any bound, nor the whole slice phase of the
  driver. So the \<open>S\<close> that the kick of slice \<open>k\<close> computes, on the state the driver
  has reached when iteration \<open>k\<close> starts (with \<^verbatim>\<open>pzeta\<close> reloaded, as the loop
  body does), is half the difference of the \<^verbatim>\<open>zeta\<close> after the change of frame and
  the centre of slice \<open>k\<close>, whatever the earlier slices did.
\<close>

theorem zeta_constant_through_slices:
  "zeta_star (synchrobeam_kick env el i_slice q0 p0c s) = zeta_star s
   \<and> zeta_star (slice_body env el q0 p0c i_slice s) = zeta_star s
   \<and> zeta_star (slice_loop env el q0 p0c N_slices i_slice s) = zeta_star s
   \<and> zeta_star (track_slices env el part0) = zeta_star (track_entry env el part0)
   \<and> S (kick_locals env el k q0 p0c
          ((slice_loop env el q0 p0c k 0 (track_entry env el part0))
             \<lparr> pzeta_star := LocalParticle_get_pzeta env
                  (part (slice_loop env el q0 p0c k 0 (track_entry env el part0))) \<rparr>))
       = 0.5 * (zeta_star (track_entry env el part0) - slices_other_beam_zeta_center_star el k)"
  by (simp add: synchrobeam_kick_zeta slice_body_zeta slice_loop_zeta track_slices_def
      kick_locals_S)

subsection \<open>The local pzeta and the particle's pzeta\<close>

text \<open>
  The loop body reloads the local \<^verbatim>\<open>pzeta\<close> from the particle. Under the accessor
  law that \<^verbatim>\<open>LocalParticle_get_pzeta\<close> returns what
  \<^verbatim>\<open>LocalParticle_update_pzeta\<close> stored, the two agree on the state the loop starts
  from, after every iteration, and so on every state the loop reaches.
\<close>

lemma synced_track_entry:
  assumes "\<forall>p v. LocalParticle_get_pzeta env (LocalParticle_update_pzeta env p v) = v"
  shows "LocalParticle_get_pzeta env (part (track_entry env el part0))
           = pzeta_star (track_entry env el part0)"
  using assms by (simp add: track_entry_def Let_def split_def)

lemma synced_slice_body:
  assumes "\<forall>p v. LocalParticle_get_pzeta env (LocalParticle_update_pzeta env p v) = v"
  shows "LocalParticle_get_pzeta env (part (slice_body env el q0 p0c i s))
           = pzeta_star (slice_body env el q0 p0c i s)"
  using assms by (simp add: slice_body_unfold)

lemma synced_slice_loop:
  "\<forall>p v. LocalParticle_get_pzeta env (LocalParticle_update_pzeta env p v) = v
     \<Longrightarrow> LocalParticle_get_pzeta env (part s) = pzeta_star s
     \<Longrightarrow> LocalParticle_get_pzeta env (part (slice_loop env el q0 p0c N i s))
           = pzeta_star (slice_loop env el q0 p0c N i s)"
proof (induction env el q0 p0c N i s rule: slice_loop.induct)
  case (1 env el q0 p0c N i s)
  show ?case
  proof (cases "i < N")
    case True
    show ?thesis
      unfolding slice_loop_step [OF True]
      by (rule "1.IH" [OF True "1.prems"(1) synced_slice_body [OF "1.prems"(1)]])
  next
    case False
    then show ?thesis using "1.prems" by (simp add: slice_loop_done)
  qed
qed

subsection \<open>Slices with at most two macroparticles\<close>

text \<open>
  Claim C4. For a slice whose \<^verbatim>\<open>num_macroparticles\<close> is at most 2, one iteration
  of the loop does not run the kick: on any state it returns the same particle, the same
  record sink and the same \<^verbatim>\<open>x, px, y, py, zeta\<close>, with the local \<^verbatim>\<open>pzeta\<close>
  re-read from the untouched particle. Under the accessor law, on the state the driver
  has reached when that iteration starts, the iteration changes nothing at all. The
  model has no error value to return and the record sink is not written.
\<close>

theorem skipped_slice_unchanged:
  assumes "slices_other_beam_num_macroparticles el i_slice \<le> 2"
  shows "slice_body env el q0 p0c i_slice s
           = s\<lparr> pzeta_star := LocalParticle_get_pzeta env (part s) \<rparr>
       \<and> ((\<forall>p v. LocalParticle_get_pzeta env (LocalParticle_update_pzeta env p v) = v) \<longrightarrow>
            slice_body env el q0 p0c i_slice
                (slice_loop env el q0 p0c i_slice 0 (track_entry env el part0))
              = slice_loop env el q0 p0c i_slice 0 (track_entry env el part0))"
proof -
  have a: "slice_body env el q0 p0c i_slice t
           = t\<lparr> pzeta_star := LocalParticle_get_pzeta env (part t) \<rparr>" for t
    using assms by (simp add: slice_body_unfold)
  have b: "slice_body env el q0 p0c i_slice
                (slice_loop env el q0 p0c i_slice 0 (track_entry env el part0))
              = slice_loop env el q0 p0c i_slice 0 (track_entry env el part0)"
    if law: "\<forall>p v. LocalParticle_get_pzeta env (LocalParticle_update_pzeta env p v) = v"
  proof -
    have "LocalParticle_get_pzeta env
            (part (slice_loop env el q0 p0c i_slice 0 (track_entry env el part0)))
          = pzeta_star (slice_loop env el q0 p0c i_slice 0 (track_entry env el part0))"
      by (rule synced_slice_loop [OF law synced_track_entry [OF law]])
    then show ?thesis by (simp add: a)
  qed
  from a b show ?thesis by blast
qed

text \<open>
  At the example: slice 0 has 100 macroparticles and is kicked, slice 1 has exactly 2
  and is skipped; the state that iteration 1 starts from is the state it ends with.
\<close>

theorem skipped_slice_unchanged_witness:
  "slices_other_beam_num_macroparticles (ex_el 0 (\<lambda>i. 1) (\<lambda>i. if i = 0 then 100 else 2)) 1 \<le> 2
   \<and> (\<forall>p v. LocalParticle_get_pzeta ex_env (LocalParticle_update_pzeta ex_env p v) = v)
   \<and> slice_loop ex_env (ex_el 0 (\<lambda>i. 1) (\<lambda>i. if i = 0 then 100 else 2)) 1 1 1 0
         (track_entry ex_env (ex_el 0 (\<lambda>i. 1) (\<lambda>i. if i = 0 then 100 else 2)) ex_part)
       = ex_state\<lparr> part := ex_part\<lparr> p_pzeta := 1 / 16 \<rparr>,
                   x_star := 3 / 2, px_star := 1 / 2, pzeta_star := 1 / 16 \<rparr>
   \<and> slice_body ex_env (ex_el 0 (\<lambda>i. 1) (\<lambda>i. if i = 0 then 100 else 2)) 1 1 1
         (ex_state\<lparr> part := ex_part\<lparr> p_pzeta := 1 / 16 \<rparr>,
                   x_star := 3 / 2, px_star := 1 / 2, pzeta_star := 1 / 16 \<rparr>)
       = ex_state\<lparr> part := ex_part\<lparr> p_pzeta := 1 / 16 \<rparr>,
                   x_star := 3 / 2, px_star := 1 / 2, pzeta_star := 1 / 16 \<rparr>"
proof -
  let ?el = "ex_el 0 (\<lambda>i. 1) (\<lambda>i. if i = 0 then 100 else 2)"
  let ?t = "ex_state\<lparr> part := ex_part\<lparr> p_pzeta := 1 / 16 \<rparr>,
                   x_star := 3 / 2, px_star := 1 / 2, pzeta_star := 1 / 16 \<rparr>"
  have h: "slices_other_beam_num_macroparticles ?el 1 \<le> 2"
    by (simp add: ex_el_def)
  have law: "\<forall>p v. LocalParticle_get_pzeta ex_env (LocalParticle_update_pzeta ex_env p v) = v"
    by (simp add: ex_env_def)
  have run: "slice_loop ex_env ?el 1 1 1 0 (track_entry ex_env ?el ex_part) = ?t"
    by (simp add: track_entry_def ex_defs shifts_def angles_def Let_def slice_loop.simps
        slice_body_def synchrobeam_kick_def kick_locals_def beamstrahlung_step_def)
  from skipped_slice_unchanged [OF h, of ex_env 1 1 ex_state ex_part] law
  have "slice_body ex_env ?el 1 1 1
          (slice_loop ex_env ?el 1 1 1 0 (track_entry ex_env ?el ex_part))
        = slice_loop ex_env ?el 1 1 1 0 (track_entry ex_env ?el ex_part)"
    by blast
  with h law run show ?thesis by simp
qed

subsection \<open>A slice of intensity zero\<close>





subsection \<open>The two slice fields\<close>

lemma macro_update_reads:
  "other_beam_q0 (el\<lparr> slices_other_beam_num_macroparticles := m \<rparr>) = other_beam_q0 el"
  "min_sigma_diff (el\<lparr> slices_other_beam_num_macroparticles := m \<rparr>) = min_sigma_diff el"
  "threshold_singular (el\<lparr> slices_other_beam_num_macroparticles := m \<rparr>) = threshold_singular el"
  "do_beamstrahlung (el\<lparr> slices_other_beam_num_macroparticles := m \<rparr>) = do_beamstrahlung el"
  "slices_other_beam_Sigma_11_star (el\<lparr> slices_other_beam_num_macroparticles := m \<rparr>) = slices_other_beam_Sigma_11_star el"
  "slices_other_beam_Sigma_12_star (el\<lparr> slices_other_beam_num_macroparticles := m \<rparr>) = slices_other_beam_Sigma_12_star el"
  "slices_other_beam_Sigma_13_star (el\<lparr> slices_other_beam_num_macroparticles := m \<rparr>) = slices_other_beam_Sigma_13_star el"
  "slices_other_beam_Sigma_14_star (el\<lparr> slices_other_beam_num_macroparticles := m \<rparr>) = slices_other_beam_Sigma_14_star el"
  "slices_other_beam_Sigma_22_star (el\<lparr> slices_other_beam_num_macroparticles := m \<rparr>) = slices_other_beam_Sigma_22_star el"
  "slices_other_beam_Sigma_23_star (el\<lparr> slices_other_beam_num_macroparticles := m \<rparr>) = slices_other_beam_Sigma_23_star el"
  "slices_other_beam_Sigma_24_star (el\<lparr> slices_other_beam_num_macroparticles := m \<rparr>) = slices_other_beam_Sigma_24_star el"
  "slices_other_beam_Sigma_33_star (el\<lparr> slices_other_beam_num_macroparticles := m \<rparr>) = slices_other_beam_Sigma_33_star el"
  "slices_other_beam_Sigma_34_star (el\<lparr> slices_other_beam_num_macroparticles := m \<rparr>) = slices_other_beam_Sigma_34_star el"
  "slices_other_beam_Sigma_44_star (el\<lparr> slices_other_beam_num_macroparticles := m \<rparr>) = slices_other_beam_Sigma_44_star el"
  "slices_other_beam_num_particles (el\<lparr> slices_other_beam_num_macroparticles := m \<rparr>) = slices_other_beam_num_particles el"
  "slices_other_beam_x_center_star (el\<lparr> slices_other_beam_num_macroparticles := m \<rparr>) = slices_other_beam_x_center_star el"
  "slices_other_beam_y_center_star (el\<lparr> slices_other_beam_num_macroparticles := m \<rparr>) = slices_other_beam_y_center_star el"
  "slices_other_beam_zeta_center_star (el\<lparr> slices_other_beam_num_macroparticles := m \<rparr>) = slices_other_beam_zeta_center_star el"
  "slices_other_beam_zeta_bin_width_star (el\<lparr> slices_other_beam_num_macroparticles := m \<rparr>) = slices_other_beam_zeta_bin_width_star el"
  by simp_all

text \<open>The kick reads no macroparticle count.\<close>

lemma synchrobeam_kick_ignores_macroparticles:
  "synchrobeam_kick env (el\<lparr> slices_other_beam_num_macroparticles := m \<rparr>) i q0 p0c s
     = synchrobeam_kick env el i q0 p0c s"
  unfolding synchrobeam_kick_def kick_locals_def beamstrahlung_step_def macro_update_reads
  by (rule refl)

text \<open>
  Claim C10. One iteration of the loop runs the kick exactly when the slice's
  \<^verbatim>\<open>num_macroparticles\<close> exceeds 2, whatever its \<^verbatim>\<open>num_particles\<close>; the kick
  gives the same result whatever the macroparticle counts are; and \<open>Ksl\<close> is the
  slice's \<^verbatim>\<open>num_particles\<close> times a factor that does not mention the slice. For a
  slice with \<^verbatim>\<open>num_particles = 0\<close> and more than two macroparticles the kick runs,
  radiation branch included: with \<^verbatim>\<open>do_beamstrahlung = 2\<close> the particle that
  comes out is the one \<^verbatim>\<open>synrad_avg\<close> returned (called with intensity \<open>0\<close>), with
  \<^verbatim>\<open>pzeta\<close> stored; with \<^verbatim>\<open>do_beamstrahlung = 1\<close> the particle and the record
  sink are the ones \<^verbatim>\<open>synrad\<close> returned.
\<close>

theorem skip_and_scale_read_distinct_fields:
  "(let s1 = s\<lparr> pzeta_star := LocalParticle_get_pzeta env (part s) \<rparr>;
        L = kick_locals env el i_slice q0 p0c s1;
        s2 = synchrobeam_kick env el i_slice q0 p0c s1;
        s' = slice_body env el q0 p0c i_slice s
    in s' = (if slices_other_beam_num_macroparticles el i_slice > 2
             then s2\<lparr> part := LocalParticle_update_pzeta env (part s2) (pzeta_star s2) \<rparr>
             else s1)
     \<and> synchrobeam_kick env (el\<lparr> slices_other_beam_num_macroparticles := m \<rparr>) i_slice q0 p0c s1 = s2
     \<and> Ksl L = slices_other_beam_num_particles el i_slice * QELEM env * other_beam_q0 el
                 * QELEM env * q0 / (p0c / C_LIGHT env * QELEM env * C_LIGHT env)
     \<and> (slices_other_beam_num_particles el i_slice = 0
          \<and> slices_other_beam_num_macroparticles el i_slice > 2
          \<and> do_beamstrahlung el = 2 \<longrightarrow>
            part s' = LocalParticle_update_pzeta env
                        (synrad_avg env (part s) 0 (sqrt (Sig_11_hat_star L))
                           (sqrt (Sig_33_hat_star L)) 0.0121)
                        (pzeta_star s'))
     \<and> (slices_other_beam_num_particles el i_slice = 0
          \<and> slices_other_beam_num_macroparticles el i_slice > 2
          \<and> do_beamstrahlung el = 1 \<longrightarrow>
            part s' = LocalParticle_update_pzeta env
                        (fst (synrad env (part s) (bs_record s)
                                (sqrt ((Fx_star L)\<^sup>2 + (Fy_star L)\<^sup>2)
                                   * LocalParticle_get_rpp env (part s))
                                (0.5 * slices_other_beam_zeta_bin_width_star el i_slice)))
                        (pzeta_star s')
          \<and> bs_record s' =
              snd (synrad env (part s) (bs_record s)
                     (sqrt ((Fx_star L)\<^sup>2 + (Fy_star L)\<^sup>2)
                        * LocalParticle_get_rpp env (part s))
                     (0.5 * slices_other_beam_zeta_bin_width_star el i_slice))))"
proof -
  define s1 where "s1 = s\<lparr> pzeta_star := LocalParticle_get_pzeta env (part s) \<rparr>"
  define L where "L = kick_locals env el i_slice q0 p0c s1"
  define s2 where "s2 = synchrobeam_kick env el i_slice q0 p0c s1"
  have ps1: "part s1 = part s" "bs_record s1 = bs_record s"
    by (simp_all add: s1_def)
  have body: "slice_body env el q0 p0c i_slice s =
      (if slices_other_beam_num_macroparticles el i_slice > 2
       then s2\<lparr> part := LocalParticle_update_pzeta env (part s2) (pzeta_star s2) \<rparr>
       else s1)"
    by (simp add: slice_body_unfold s1_def s2_def)
  have indep: "synchrobeam_kick env (el\<lparr> slices_other_beam_num_macroparticles := m \<rparr>)
                 i_slice q0 p0c s1 = s2"
    unfolding s2_def by (rule synchrobeam_kick_ignores_macroparticles)
  have ksl: "Ksl L = slices_other_beam_num_particles el i_slice * QELEM env * other_beam_q0 el
                 * QELEM env * q0 / (p0c / C_LIGHT env * QELEM env * C_LIGHT env)"
    by (simp add: L_def kick_locals_def Let_def split_def)
  have p2: "part s2 = part (beamstrahlung_step env el i_slice L s1)"
    "bs_record s2 = bs_record (beamstrahlung_step env el i_slice L s1)"
    unfolding s2_def L_def by (rule synchrobeam_kick_part)+
  have avg: "part (slice_body env el q0 p0c i_slice s) =
      LocalParticle_update_pzeta env
        (synrad_avg env (part s) 0 (sqrt (Sig_11_hat_star L)) (sqrt (Sig_33_hat_star L)) 0.0121)
        (pzeta_star (slice_body env el q0 p0c i_slice s))"
    if "slices_other_beam_num_particles el i_slice = 0"
      "slices_other_beam_num_macroparticles el i_slice > 2" "do_beamstrahlung el = 2"
    using that by (simp add: body p2 beamstrahlung_step_def Let_def ps1)
  have sto: "part (slice_body env el q0 p0c i_slice s) =
      LocalParticle_update_pzeta env
        (fst (synrad env (part s) (bs_record s)
                (sqrt ((Fx_star L)\<^sup>2 + (Fy_star L)\<^sup>2) * LocalParticle_get_rpp env (part s))
                (0.5 * slices_other_beam_zeta_bin_width_star el i_slice)))
        (pzeta_star (slice_body env el q0 p0c i_slice s))
      \<and> bs_record (slice_body env el q0 p0c i_slice s) =
        snd (synrad env (part s) (bs_record s)
                (sqrt ((Fx_star L)\<^sup>2 + (Fy_star L)\<^sup>2) * LocalParticle_get_rpp env (part s))
                (0.5 * slices_other_beam_zeta_bin_width_star el i_slice))"
    if "slices_other_beam_num_particles el i_slice = 0"
      "slices_other_beam_num_macroparticles el i_slice > 2" "do_beamstrahlung el = 1"
    using that by (simp add: body p2 beamstrahlung_step_def Let_def split_def ps1)
  show ?thesis
    unfolding Let_def s1_def [symmetric] L_def [symmetric] s2_def [symmetric]
    apply (intro conjI impI)
    subgoal by (rule body)
    subgoal by (rule indep)
    subgoal by (rule ksl)
    subgoal by (rule avg) simp_all
    subgoal using sto by simp
    subgoal using sto by simp
    done
qed

text \<open>
  At the example, on slice 0 with intensity zero and 100 macroparticles: with
  \<^verbatim>\<open>do_beamstrahlung = 2\<close> the particle that comes out of the iteration is the
  one the averaged radiation instance returned, which at intensity zero took nothing;
  with \<^verbatim>\<open>do_beamstrahlung = 1\<close> the iteration appends an entry to the record sink.
\<close>

theorem skip_and_scale_read_distinct_fields_witness:
  "slices_other_beam_num_particles (ex_el 2 (\<lambda>i. 0) (\<lambda>i. 100)) 0 = 0
   \<and> slices_other_beam_num_macroparticles (ex_el 2 (\<lambda>i. 0) (\<lambda>i. 100)) 0 > 2
   \<and> do_beamstrahlung (ex_el 2 (\<lambda>i. 0) (\<lambda>i. 100)) = 2
   \<and> slice_body ex_env (ex_el 2 (\<lambda>i. 0) (\<lambda>i. 100)) 1 1 0 ex_state
       = ex_state
   \<and> part (slice_body ex_env (ex_el 2 (\<lambda>i. 0) (\<lambda>i. 100)) 1 1 0 ex_state)
       = LocalParticle_update_pzeta ex_env
           (synrad_avg ex_env ex_part 0 1 1 0.0121) 0
   \<and> slices_other_beam_num_particles (ex_el 1 (\<lambda>i. 0) (\<lambda>i. 100)) 0 = 0
   \<and> slices_other_beam_num_macroparticles (ex_el 1 (\<lambda>i. 0) (\<lambda>i. 100)) 0 > 2
   \<and> do_beamstrahlung (ex_el 1 (\<lambda>i. 0) (\<lambda>i. 100)) = 1
   \<and> bs_record (slice_body ex_env (ex_el 1 (\<lambda>i. 0) (\<lambda>i. 100)) 1 1 0 ex_state)
       = snd (synrad ex_env ex_part (Some []) 0 (1 / 2))
   \<and> bs_record (slice_body ex_env (ex_el 1 (\<lambda>i. 0) (\<lambda>i. 100)) 1 1 0 ex_state) = Some [0]"
proof -
  let ?e2 = "ex_el 2 (\<lambda>i. 0) (\<lambda>i. 100)"
  let ?e1 = "ex_el 1 (\<lambda>i. 0) (\<lambda>i. 100)"
  have h2: "slices_other_beam_num_particles ?e2 0 = 0"
    "slices_other_beam_num_macroparticles ?e2 0 > 2" "do_beamstrahlung ?e2 = 2"
    by (simp_all add: ex_el_def)
  have h1: "slices_other_beam_num_particles ?e1 0 = 0"
    "slices_other_beam_num_macroparticles ?e1 0 > 2" "do_beamstrahlung ?e1 = 1"
    by (simp_all add: ex_el_def)
  have s1: "ex_state\<lparr> pzeta_star := LocalParticle_get_pzeta ex_env (part ex_state) \<rparr> = ex_state"
    by (simp add: ex_state_def ex_env_def ex_part_def)
  have L2: "Sig_11_hat_star (kick_locals ex_env ?e2 0 1 1 ex_state) = 1"
    "Sig_33_hat_star (kick_locals ex_env ?e2 0 1 1 ex_state) = 1"
    by (simp_all add: kick_locals_def ex_defs Let_def)
  have L1: "Fx_star (kick_locals ex_env ?e1 0 1 1 ex_state) = 0"
    "Fy_star (kick_locals ex_env ?e1 0 1 1 ex_state) = 0"
    by (simp_all add: kick_locals_def ex_defs Let_def)
  have b2: "slice_body ex_env ?e2 1 1 0 ex_state
       = ex_state"
    by (simp add: ex_defs Let_def slice_body_def synchrobeam_kick_def kick_locals_def
        beamstrahlung_step_def)
  have b1: "bs_record (slice_body ex_env ?e1 1 1 0 ex_state) = Some [0]"
    by (simp add: ex_defs Let_def slice_body_def synchrobeam_kick_def kick_locals_def
        beamstrahlung_step_def)
  have ps: "part ex_state = ex_part" "bs_record ex_state = Some []"
    "pzeta_star ex_state = 0"
    "LocalParticle_get_rpp ex_env ex_part = 1"
    "slices_other_beam_zeta_bin_width_star ?e1 0 = 1"
    by (simp_all add: ex_state_def ex_env_def ex_part_def ex_el_def)
  note i2 = skip_and_scale_read_distinct_fields [where s = ex_state and env = ex_env and el = ?e2 and i_slice = 0
      and ?q0.0 = 1 and p0c = 1 and m = "\<lambda>i. 0", unfolded Let_def s1]
  note m2 = i2 [THEN conjunct2, THEN conjunct2, THEN conjunct2, THEN conjunct1, THEN mp,
      OF conjI [OF h2(1) conjI [OF h2(2) h2(3)]]]
  from m2 have a2: "part (slice_body ex_env ?e2 1 1 0 ex_state)
       = LocalParticle_update_pzeta ex_env
           (synrad_avg ex_env ex_part 0 1 1 0.0121) 0"
    by (simp add: L2 ps b2)
  note i1 = skip_and_scale_read_distinct_fields [where s = ex_state and env = ex_env and el = ?e1 and i_slice = 0
      and ?q0.0 = 1 and p0c = 1 and m = "\<lambda>i. 0", unfolded Let_def s1]
  note m1 = i1 [THEN conjunct2, THEN conjunct2, THEN conjunct2, THEN conjunct2, THEN mp,
      OF conjI [OF h1(1) conjI [OF h1(2) h1(3)]], THEN conjunct2]
  from m1 have a1: "bs_record (slice_body ex_env ?e1 1 1 0 ex_state)
       = snd (synrad ex_env ex_part (Some []) 0 (1 / 2))"
    by (simp add: L1 ps)
  from h1 h2 a1 a2 b1 b2 show ?thesis by simp
qed

subsection \<open>Radiation flag 0 against 2\<close>



















text \<open>
  The frame instances obey the frame round trip of the specification: with the
  post-subtraction offsets at zero, the inverse undoes the forward one, at any angle.
\<close>

lemma ex_frame_round_trip:
  "ex_change_back (ex_change_ref_frame_coordinates c sh ang) sh (0, 0, 0, 0, 0, 0) ang = c"
  by (cases c; cases sh; cases ang)
     (simp add: ex_change_back_def ex_change_ref_frame_coordinates_def)

subsection \<open>Slice order\<close>

text \<open>
  Claim C8. With the collaborator instance of this theory (a drift-only Sigma
  propagator and a field linear in the offset), the example particle at \<open>x = 1\<close> and
  the example table of two slices with intensities \<open>1\<close> and \<open>2\<close> centred at
  \<open>zeta = 2\<close> and \<open>zeta = -2\<close>: the driver's order \<open>0, 1\<close> ends at
  \<open>pzeta = 25/16\<close>, the order \<open>1, 0\<close> ends at \<open>pzeta = 1/16\<close>. The kick of a
  slice reads the \<^verbatim>\<open>x\<close> and \<^verbatim>\<open>px\<close> that the slices before it left.
\<close>

theorem slice_order_matters:
  "track_entry ex_env (ex_el 0 (\<lambda>i. if i = 0 then 1 else 2) (\<lambda>i. 100)) ex_part = ex_state
   \<and> pzeta_star (track_slices ex_env (ex_el 0 (\<lambda>i. if i = 0 then 1 else 2) (\<lambda>i. 100)) ex_part)
       = 25 / 16
   \<and> pzeta_star
        (slice_loop_reversed ex_env (ex_el 0 (\<lambda>i. if i = 0 then 1 else 2) (\<lambda>i. 100))
           (LocalParticle_get_q0 ex_env ex_part) (LocalParticle_get_p0c ex_env ex_part)
           (num_slices_other_beam (ex_el 0 (\<lambda>i. if i = 0 then 1 else 2) (\<lambda>i. 100)) - 1)
           (track_entry ex_env (ex_el 0 (\<lambda>i. if i = 0 then 1 else 2) (\<lambda>i. 100)) ex_part))
       = 1 / 16
   \<and> pzeta_star (track_slices ex_env (ex_el 0 (\<lambda>i. if i = 0 then 1 else 2) (\<lambda>i. 100)) ex_part)
       \<noteq> pzeta_star
            (slice_loop_reversed ex_env (ex_el 0 (\<lambda>i. if i = 0 then 1 else 2) (\<lambda>i. 100))
               (LocalParticle_get_q0 ex_env ex_part) (LocalParticle_get_p0c ex_env ex_part)
               (num_slices_other_beam (ex_el 0 (\<lambda>i. if i = 0 then 1 else 2) (\<lambda>i. 100)) - 1)
               (track_entry ex_env (ex_el 0 (\<lambda>i. if i = 0 then 1 else 2) (\<lambda>i. 100)) ex_part))"
proof -
  let ?el = "ex_el 0 (\<lambda>i. if i = 0 then 1 else 2) (\<lambda>i. 100)"
  have ent: "track_entry ex_env ?el ex_part = ex_state"
    by (simp add: track_entry_def ex_defs shifts_def angles_def Let_def)
  have q: "LocalParticle_get_q0 ex_env ex_part = 1" "LocalParticle_get_p0c ex_env ex_part = 1"
    "num_slices_other_beam ?el = 2"
    by (simp_all add: ex_env_def ex_part_def ex_el_def)
  have fwd: "pzeta_star (slice_loop ex_env ?el 1 1 2 0 ex_state) = 25 / 16"
    by (simp add: ex_defs Let_def slice_loop.simps slice_body_def synchrobeam_kick_def
        kick_locals_def beamstrahlung_step_def)
  have bwd: "pzeta_star (slice_loop_reversed ex_env ?el 1 1 1 ex_state) = 1 / 16"
    by (simp add: ex_defs Let_def slice_loop_reversed.simps slice_body_def synchrobeam_kick_def
        kick_locals_def beamstrahlung_step_def)
  show ?thesis
    by (simp add: track_slices_def ent q fwd bwd)
qed


end
